theory Spec2Isabelle
  imports Main
begin

section \<open>Data model\<close>

text \<open>
  The server actions of the tailor shop talk to two external services, an identity
  provider and a relational store. A JavaScript string is modelled as a \<open>string\<close>,
  and a column that may be null (or an object key that may be absent) as an \<open>option\<close>.
  \<open>OrderStatus\<close> and \<open>PaymentStatus\<close> are string-literal types, so at run time
  a status is a string; the actions compare it with \<open>===\<close>.
\<close>

text \<open>A row of table \<open>measurement_sets\<close>; \<open>'m\<close> is the opaque measurements payload.\<close>

record 'm measurement_set_row =
  ms_id :: string
  ms_customer_id :: string
  ms_date :: string
  ms_measurements :: 'm
  ms_job_number :: "string option"
  ms_request_date :: "string option"
  ms_payment_status :: string
  ms_order_status :: string
  ms_completion_date :: "string option"
  ms_handover_date :: "string option"

text \<open>
  The argument of \<open>addMeasurementSet\<close>, of type \<open>Omit<MeasurementSet, 'id' | 'date'>\<close>,
  with the fields that \<open>getCustomerById\<close> builds for a \<open>MeasurementSet\<close>.
\<close>

record 'm MeasurementSet =
  measurements :: 'm
  jobNumber :: "string option"
  requestDate :: "string option"
  paymentStatus :: string
  orderStatus :: string
  completionDate :: "string option"
  handoverDate :: "string option"

text \<open>The object literal that \<open>addMeasurementSet\<close> passes to \<open>insert\<close>.\<close>

record 'm measurement_set_insert =
  customer_id :: string
  date :: string
  measurements_col :: 'm
  job_number :: "string option"
  request_date :: "string option"
  payment_status :: string
  order_status :: string

text \<open>
  The object passed to \<open>update\<close> on \<open>measurement_sets\<close>: one optional entry per
  column that the actions ever write. \<open>None\<close> is an absent key, which leaves the column
  as it is.
\<close>

record updateData =
  set_order_status :: "string option"
  set_payment_status :: "string option"
  set_completion_date :: "string option"
  set_handover_date :: "string option"

text \<open>The parsed customer form (\<open>validatedFields.data\<close>) and a row of \<open>customers\<close>.\<close>

record customer_data =
  name :: string
  nic :: string
  contact :: string
  orderHistory :: "string option"
  preferences :: "string option"

record customer_row =
  c_id :: string
  c_user_id :: string
  c_data :: customer_data

text \<open>Every request that an action sends to the identity provider, the store or the page cache.\<close>

datatype 'm call =
    Auth_signInWithPassword string string
  | Auth_signUp string string string
  | Auth_getUser
  | Insert_customer customer_data string
  | Update_customer customer_data string
  | Insert_measurement_set "'m measurement_set_insert"
  | Update_measurement_sets updateData string
  | Select_customers
  | RevalidatePath string

text \<open>
  The state outside the handlers: the two tables and the log of the requests made so far.
\<close>

record 'm world =
  customers :: "customer_row list"
  measurement_sets :: "'m measurement_set_row list"
  calls :: "'m call list"

text \<open>
  What the surroundings answer during one action: the clock read by
  \<open>new Date().toISOString()\<close>, the \<open>origin\<close> request header, the signed-in user,
  the \<open>error\<close> of the identity provider's and of the store's reply, and the id that the
  store gives to an inserted row.
\<close>

record env =
  now :: string
  origin :: "string option"
  user :: "string option"
  auth_error :: "string option"
  store_error :: "string option"
  new_id :: string

text \<open>What an action hands back: \<open>{ error, fields? }\<close>, \<open>{ success: true }\<close> or a redirect.\<close>

datatype action_result =
    Failure string "(string \<times> string list) list option"
  | Success
  | Redirect string

section \<open>The external services\<close>

text \<open>
  The store is not part of the repository. Its write primitives are modelled as the
  handlers use them: a request is logged, and it is applied as a whole exactly when the
  store's reply carries no error. An update with filter \<open>eq('id', x)\<close> changes the
  columns named in the object, in every row whose id is \<open>x\<close>. An inserted row gets
  the store's id and null in the columns the object does not name.
\<close>

definition store_write ::
  "env \<Rightarrow> 'm call \<Rightarrow> ('m world \<Rightarrow> 'm world) \<Rightarrow> 'm world \<Rightarrow> string option \<times> 'm world" where
  "store_write e c effect w =
     (let w1 = w\<lparr>calls := calls w @ [c]\<rparr>
      in case store_error e of
           Some err \<Rightarrow> (Some err, w1)
         | None \<Rightarrow> (None, effect w1))"

definition apply_update :: "updateData \<Rightarrow> 'm measurement_set_row \<Rightarrow> 'm measurement_set_row" where
  "apply_update u r =
     r\<lparr>ms_order_status := (case set_order_status u of None \<Rightarrow> ms_order_status r | Some s \<Rightarrow> s),
       ms_payment_status := (case set_payment_status u of None \<Rightarrow> ms_payment_status r | Some s \<Rightarrow> s),
       ms_completion_date := (case set_completion_date u of None \<Rightarrow> ms_completion_date r | Some d \<Rightarrow> Some d),
       ms_handover_date := (case set_handover_date u of None \<Rightarrow> ms_handover_date r | Some d \<Rightarrow> Some d)\<rparr>"

definition update_measurement_sets ::
  "env \<Rightarrow> updateData \<Rightarrow> string \<Rightarrow> 'm world \<Rightarrow> string option \<times> 'm world" where
  "update_measurement_sets e u setId =
     store_write e (Update_measurement_sets u setId)
       (\<lambda>w. w\<lparr>measurement_sets :=
                 map (\<lambda>r. if ms_id r = setId then apply_update u r else r) (measurement_sets w)\<rparr>)"

definition inserted_row :: "string \<Rightarrow> 'm measurement_set_insert \<Rightarrow> 'm measurement_set_row" where
  "inserted_row i p =
     \<lparr>ms_id = i, ms_customer_id = customer_id p, ms_date = date p,
      ms_measurements = measurements_col p, ms_job_number = job_number p,
      ms_request_date = request_date p, ms_payment_status = payment_status p,
      ms_order_status = order_status p, ms_completion_date = None, ms_handover_date = None\<rparr>"

definition insert_measurement_set ::
  "env \<Rightarrow> 'm measurement_set_insert \<Rightarrow> 'm world \<Rightarrow> string option \<times> 'm world" where
  "insert_measurement_set e p =
     store_write e (Insert_measurement_set p)
       (\<lambda>w. w\<lparr>measurement_sets := measurement_sets w @ [inserted_row (new_id e) p]\<rparr>)"

definition insert_customer ::
  "env \<Rightarrow> customer_data \<Rightarrow> string \<Rightarrow> 'm world \<Rightarrow> string option \<times> 'm world" where
  "insert_customer e d uid =
     store_write e (Insert_customer d uid)
       (\<lambda>w. w\<lparr>customers := customers w @ [\<lparr>c_id = new_id e, c_user_id = uid, c_data = d\<rparr>]\<rparr>)"

definition update_customer ::
  "env \<Rightarrow> customer_data \<Rightarrow> string \<Rightarrow> 'm world \<Rightarrow> string option \<times> 'm world" where
  "update_customer e d customerId =
     store_write e (Update_customer d customerId)
       (\<lambda>w. w\<lparr>customers :=
                 map (\<lambda>c. if c_id c = customerId
                           then c\<lparr>c_data := d\<lparr>orderHistory :=
                                                   (case orderHistory d of None \<Rightarrow> orderHistory (c_data c)
                                                    | Some h \<Rightarrow> Some h),
                                                 preferences :=
                                                   (case preferences d of None \<Rightarrow> preferences (c_data c)
                                                    | Some p \<Rightarrow> Some p)\<rparr>\<rparr>
                           else c) (customers w)\<rparr>)"

text \<open>The identity provider: the request is logged and the reply comes from the surroundings.\<close>

definition auth_signInWithPassword ::
  "env \<Rightarrow> string \<Rightarrow> string \<Rightarrow> 'm world \<Rightarrow> string option \<times> 'm world" where
  "auth_signInWithPassword e email password w =
     (auth_error e, w\<lparr>calls := calls w @ [Auth_signInWithPassword email password]\<rparr>)"

definition auth_signUp ::
  "env \<Rightarrow> string \<Rightarrow> string \<Rightarrow> string \<Rightarrow> 'm world \<Rightarrow> string option \<times> 'm world" where
  "auth_signUp e email password emailRedirectTo w =
     (auth_error e, w\<lparr>calls := calls w @ [Auth_signUp email password emailRedirectTo]\<rparr>)"

definition auth_getUser :: "env \<Rightarrow> 'm world \<Rightarrow> string option \<times> 'm world" where
  "auth_getUser e w = (user e, w\<lparr>calls := calls w @ [Auth_getUser]\<rparr>)"

definition revalidatePath :: "string \<Rightarrow> 'm world \<Rightarrow> 'm world" where
  "revalidatePath path w = w\<lparr>calls := calls w @ [RevalidatePath path]\<rparr>"

section \<open>Measurement actions\<close>

definition addMeasurementSet ::
  "env \<Rightarrow> string \<Rightarrow> 'm MeasurementSet \<Rightarrow> 'm world \<Rightarrow> action_result \<times> 'm world" where
  "addMeasurementSet e customerId measurementSet w =
     (let (error, w1) =
            insert_measurement_set e
              \<lparr>customer_id = customerId,
               date = now e,
               measurements_col = measurements measurementSet,
               job_number = jobNumber measurementSet,
               request_date = requestDate measurementSet,
               payment_status = paymentStatus measurementSet,
               order_status = orderStatus measurementSet\<rparr> w
      in if error \<noteq> None then (Failure ''Failed to add measurement set.'' None, w1)
         else (Success, revalidatePath (''/dashboard/customer/'' @ customerId) w1))"

text \<open>
  \<open>updateData\<close> starts as \<open>{ order_status: newStatus }\<close>; the two branches add the
  completion or the handover date.
\<close>

definition order_updateData :: "env \<Rightarrow> string \<Rightarrow> updateData" where
  "order_updateData e newStatus =
     (let updateData = \<lparr>set_order_status = Some newStatus, set_payment_status = None,
                         set_completion_date = None, set_handover_date = None\<rparr>
      in if newStatus = ''Completed'' then updateData\<lparr>set_completion_date := Some (now e)\<rparr>
         else if newStatus = ''Handed Over'' then updateData\<lparr>set_handover_date := Some (now e)\<rparr>
         else updateData)"

definition updateOrderStatus ::
  "env \<Rightarrow> string \<Rightarrow> string \<Rightarrow> string \<Rightarrow> 'm world \<Rightarrow> action_result \<times> 'm world" where
  "updateOrderStatus e setId customerId newStatus w =
     (let (error, w1) = update_measurement_sets e (order_updateData e newStatus) setId w
      in if error \<noteq> None then (Failure ''Failed to update order status.'' None, w1)
         else (Success, revalidatePath (''/dashboard/customer/'' @ customerId) w1))"

definition updatePaymentStatus ::
  "env \<Rightarrow> string \<Rightarrow> string \<Rightarrow> string \<Rightarrow> 'm world \<Rightarrow> action_result \<times> 'm world" where
  "updatePaymentStatus e setId customerId newStatus w =
     (let (error, w1) =
            update_measurement_sets e
              \<lparr>set_order_status = None, set_payment_status = Some newStatus,
               set_completion_date = None, set_handover_date = None\<rparr> setId w
      in if error \<noteq> None then (Failure ''Failed to update payment status.'' None, w1)
         else (Success, revalidatePath (''/dashboard/customer/'' @ customerId) w1))"

section \<open>Form validation\<close>

text \<open>
  A form entry is a string or a file; \<open>Object.fromEntries\<close> keeps the last entry
  of each name.
\<close>

datatype form_value = Text string | File

type_synonym FormData = "(string \<times> form_value) list"

definition fromEntries :: "FormData \<Rightarrow> string \<Rightarrow> form_value option" where
  "fromEntries entries = map_of (rev entries)"

text \<open>
  The schema combinators of the validation library, as far as the schemas use them.
  A field is parsed to \<open>Inr\<close> of its value or to \<open>Inl\<close> of its messages:
  \<open>z.string()\<close> wants a string, the checks chained after it run only on a string and
  all of them report. A message that the schema does not give is the library's own.
\<close>

definition z_string :: "(string \<Rightarrow> string list) list \<Rightarrow> form_value option \<Rightarrow> string list + string" where
  "z_string checks v =
     (case v of
        None \<Rightarrow> Inl [''Required'']
      | Some File \<Rightarrow> Inl [''Expected string, received object'']
      | Some (Text s) \<Rightarrow>
          (let issues = concat (map (\<lambda>check. check s) checks)
           in if issues = [] then Inr s else Inl issues))"

definition z_string_optional :: "form_value option \<Rightarrow> string list + string option" where
  "z_string_optional v =
     (case v of
        None \<Rightarrow> Inr None
      | Some File \<Rightarrow> Inl [''Expected string, received object'']
      | Some (Text s) \<Rightarrow> Inr (Some s))"

definition z_min :: "nat \<Rightarrow> string \<Rightarrow> string \<Rightarrow> string list" where
  "z_min n message s = (if length s < n then [message] else [])"

fun split_on :: "char \<Rightarrow> string \<Rightarrow> string list" where
  "split_on c [] = [[]]"
| "split_on c (x # xs) =
     (if x = c then [] # split_on c xs
      else (case split_on c xs of [] \<Rightarrow> [[x]] | p # ps \<Rightarrow> (x # p) # ps))"

text \<open>The parts of an email address, for \<open>is_email\<close> below.\<close>

fun has_dotdot :: "string \<Rightarrow> bool" where
  "has_dotdot (x # y # ys) = ((x = CHR ''.'' \<and> y = CHR ''.'') \<or> has_dotdot (y # ys))"
| "has_dotdot _ = False"

definition is_letter :: "char \<Rightarrow> bool" where
  "is_letter c = List.member ''abcdefghijklmnopqrstuvwxyzABCDEFGHIJKLMNOPQRSTUVWXYZ'' c"

definition is_digit :: "char \<Rightarrow> bool" where
  "is_digit c = List.member ''0123456789'' c"

definition local_ok :: "string \<Rightarrow> bool" where
  "local_ok l =
     (case rev l of
        [] \<Rightarrow> False
      | z # front \<Rightarrow>
          (is_letter z \<or> is_digit z \<or> List.member ''_+-'' z) \<and>
          list_all (\<lambda>c. is_letter c \<or> is_digit c \<or> List.member ''_+-.'' c \<or> c = CHR 0x27) front \<and>
          hd l \<noteq> CHR ''.'')"

definition label_ok :: "string \<Rightarrow> bool" where
  "label_ok l =
     (case l of
        [] \<Rightarrow> False
      | x # xs \<Rightarrow> (is_letter x \<or> is_digit x) \<and>
                  list_all (\<lambda>c. is_letter c \<or> is_digit c \<or> c = CHR ''-'') xs)"

definition domain_ok :: "string \<Rightarrow> bool" where
  "domain_ok d =
     (case rev (split_on CHR ''.'' d) of
        tld # l # ls \<Rightarrow> 2 \<le> length tld \<and> list_all is_letter tld \<and> list_all label_ok (l # ls)
      | _ \<Rightarrow> False)"

text \<open>
  Modelled from the spec: the format check behind \<open>z.string().email()\<close> belongs to the
  validation library and is not among the source files. The spec calls it "email format"
  and says that an address without "@" is rejected. The definition follows the pattern the
  library's version 3 matches an address against, ignoring case:
  \<^verbatim>\<open>^(?!\.)(?!.*\.\.)([A-Z0-9_'+\-\.]*)[A-Z0-9_+-]@([A-Z0-9][A-Z0-9\-]*\.)+[A-Z]{2,}$\<close>.
  Neither side of the "@" admits a second one, so the address splits at it in two.
\<close>

definition is_email :: "string \<Rightarrow> bool" where
  "is_email s =
     (case split_on CHR ''@'' s of
        [l, d] \<Rightarrow> local_ok l \<and> domain_ok d \<and> \<not> has_dotdot s
      | _ \<Rightarrow> False)"

definition z_email :: "string \<Rightarrow> string list" where
  "z_email s = (if is_email s then [] else [''Invalid email''])"

definition field_errors :: "string \<Rightarrow> string list + 'a \<Rightarrow> (string \<times> string list) list" where
  "field_errors key r = (case r of Inl issues \<Rightarrow> [(key, issues)] | Inr _ \<Rightarrow> [])"

text \<open>
  \<open>safeParse\<close> of each schema: \<open>Inr\<close> of the parsed data, or \<open>Inl\<close> of the messages
  of the fields that failed (\<open>error.flatten().fieldErrors\<close>), in the schema's order.
\<close>

definition loginSchema :: "(string \<Rightarrow> form_value option) \<Rightarrow> (string \<times> string list) list + string \<times> string" where
  "loginSchema obj =
     (let email = z_string [z_email] (obj ''email'');
          password = z_string [z_min 6 ''String must contain at least 6 character(s)''] (obj ''password'')
      in case (email, password) of
           (Inr e, Inr p) \<Rightarrow> Inr (e, p)
         | _ \<Rightarrow> Inl (field_errors ''email'' email @ field_errors ''password'' password))"

definition signupSchema :: "(string \<Rightarrow> form_value option) \<Rightarrow> (string \<times> string list) list + string \<times> string" where
  "signupSchema obj =
     (let email = z_string [z_email] (obj ''email'');
          password = z_string [z_min 6 ''String must contain at least 6 character(s)''] (obj ''password'')
      in case (email, password) of
           (Inr e, Inr p) \<Rightarrow> Inr (e, p)
         | _ \<Rightarrow> Inl (field_errors ''email'' email @ field_errors ''password'' password))"

definition customerFormSchema :: "(string \<Rightarrow> form_value option) \<Rightarrow> (string \<times> string list) list + customer_data" where
  "customerFormSchema obj =
     (let n = z_string [z_min 2 ''Name must be at least 2 characters.''] (obj ''name'');
          i = z_string [z_min 5 ''NIC must be at least 5 characters.''] (obj ''nic'');
          c = z_string [z_min 5 ''Contact information is required.''] (obj ''contact'');
          h = z_string_optional (obj ''orderHistory'');
          p = z_string_optional (obj ''preferences'')
      in case (n, i, c, h, p) of
           (Inr nv, Inr iv, Inr cv, Inr hv, Inr pv) \<Rightarrow>
             Inr \<lparr>name = nv, nic = iv, contact = cv, orderHistory = hv, preferences = pv\<rparr>
         | _ \<Rightarrow> Inl (field_errors ''name'' n @ field_errors ''nic'' i @ field_errors ''contact'' c
                      @ field_errors ''orderHistory'' h @ field_errors ''preferences'' p))"

section \<open>Authentication and customer actions\<close>

definition login :: "env \<Rightarrow> FormData \<Rightarrow> 'm world \<Rightarrow> action_result \<times> 'm world" where
  "login e formData w =
     (case loginSchema (fromEntries formData) of
        Inl issues \<Rightarrow> (Failure ''Invalid fields'' None, w)
      | Inr (email, password) \<Rightarrow>
          (let (error, w1) = auth_signInWithPassword e email password w
           in if error \<noteq> None then (Failure ''Could not authenticate user'' None, w1)
              else (Redirect ''/dashboard'', w1)))"

definition signup :: "env \<Rightarrow> FormData \<Rightarrow> 'm world \<Rightarrow> action_result \<times> 'm world" where
  "signup e formData w =
     (case signupSchema (fromEntries formData) of
        Inl issues \<Rightarrow> (Failure ''Invalid fields'' None, w)
      | Inr (email, password) \<Rightarrow>
          (let emailRedirectTo = (case origin e of None \<Rightarrow> ''null'' | Some orig \<Rightarrow> orig) @ ''/auth/callback'';
               (error, w1) = auth_signUp e email password emailRedirectTo w
           in if error \<noteq> None then (Failure ''Could not authenticate user'' None, w1)
              else (let (ignored, w2) = auth_signInWithPassword e email password w1
                    in (Redirect ''/dashboard'', w2))))"

definition createCustomer :: "env \<Rightarrow> FormData \<Rightarrow> 'm world \<Rightarrow> action_result \<times> 'm world" where
  "createCustomer e formData w =
     (case customerFormSchema (fromEntries formData) of
        Inl fieldErrors \<Rightarrow> (Failure ''Invalid fields'' (Some fieldErrors), w)
      | Inr data \<Rightarrow>
          (let (u, w1) = auth_getUser e w
           in case u of
                None \<Rightarrow> (Failure ''You must be logged in to create a customer.'' None, w1)
              | Some uid \<Rightarrow>
                  (let (error, w2) = insert_customer e data uid w1
                   in if error \<noteq> None then (Failure ''Failed to create customer.'' None, w2)
                      else (Redirect (''/dashboard/customer/'' @ new_id e),
                            revalidatePath ''/dashboard'' w2))))"

definition updateCustomer :: "env \<Rightarrow> string \<Rightarrow> FormData \<Rightarrow> 'm world \<Rightarrow> action_result \<times> 'm world" where
  "updateCustomer e customerId formData w =
     (case customerFormSchema (fromEntries formData) of
        Inl fieldErrors \<Rightarrow> (Failure ''Invalid fields'' (Some fieldErrors), w)
      | Inr data \<Rightarrow>
          (let (error, w1) = update_customer e data customerId w
           in if error \<noteq> None then (Failure ''Failed to update customer.'' None, w1)
              else (Success,
                    revalidatePath (''/dashboard/customer/'' @ customerId)
                      (revalidatePath ''/dashboard'' w1))))"

section \<open>Data fetching\<close>

text \<open>
  A row that the select of \<open>getCustomers\<close> yields: the customer's columns (\<open>'c\<close>) and
  the joined \<open>measurement_sets\<close>; the listed customer repeats them as \<open>measurementSets\<close>.
  \<open>rows\<close> is what the store returns when the select succeeds. A reply with neither
  error nor data would make \<open>data.map\<close> throw.
\<close>

datatype js_error = TypeError

record ('c, 'j) customer_select =
  sel_columns :: 'c
  sel_measurement_sets :: "'j list"

record ('c, 'j) customer_listed =
  lst_columns :: 'c
  lst_measurement_sets :: "'j list"
  measurementSets :: "'j list"

definition select_customers ::
  "env \<Rightarrow> 'r list \<Rightarrow> 'm world \<Rightarrow> ('r list option \<times> string option) \<times> 'm world" where
  "select_customers e rows w =
     ((case store_error e of None \<Rightarrow> (Some rows, None) | Some err \<Rightarrow> (None, Some err)),
      w\<lparr>calls := calls w @ [Select_customers]\<rparr>)"

definition getCustomers ::
  "env \<Rightarrow> ('c, 'j) customer_select list \<Rightarrow> 'm world \<Rightarrow>
     (js_error + ('c, 'j) customer_listed list) \<times> 'm world" where
  "getCustomers e rows w =
     (let ((data, error), w1) = select_customers e rows w
      in if error \<noteq> None then (Inr [], w1)
         else (case data of
                 None \<Rightarrow> (Inl TypeError, w1)
               | Some cs \<Rightarrow>
                   (Inr (map (\<lambda>c. \<lparr>lst_columns = sel_columns c,
                                   lst_measurement_sets = sel_measurement_sets c,
                                   measurementSets = sel_measurement_sets c\<rparr>) cs), w1)))"

section \<open>Sequences of calls and sample data\<close>

text \<open>A run of \<open>updateOrderStatus\<close> calls, each with its own surroundings.\<close>

fun updateOrderStatus_seq :: "(env \<times> string \<times> string \<times> string) list \<Rightarrow> 'm world \<Rightarrow> 'm world" where
  "updateOrderStatus_seq [] w = w"
| "updateOrderStatus_seq ((e, setId, customerId, newStatus) # cs) w =
     updateOrderStatus_seq cs (snd (updateOrderStatus e setId customerId newStatus w))"

text \<open>A store with one customer and two measurement sets, used to exercise the theorems.\<close>

definition example_env :: env where
  "example_env = \<lparr>now = ''2024-05-01T10:00:00.000Z'', origin = Some ''http://localhost:3000'',
                   user = Some ''u1'', auth_error = None, store_error = None, new_id = ''s3''\<rparr>"

definition example_world :: "nat world" where
  "example_world =
     \<lparr>customers = [\<lparr>c_id = ''c1'', c_user_id = ''u1'',
                     c_data = \<lparr>name = ''A B'', nic = ''12345'', contact = ''0771234567'',
                               orderHistory = None, preferences = None\<rparr>\<rparr>],
      measurement_sets =
        [\<lparr>ms_id = ''s1'', ms_customer_id = ''c1'', ms_date = ''2024-04-01T08:00:00.000Z'',
          ms_measurements = 0, ms_job_number = Some ''J-1'', ms_request_date = None,
          ms_payment_status = ''Unpaid'', ms_order_status = ''Pending'',
          ms_completion_date = None, ms_handover_date = None\<rparr>,
         \<lparr>ms_id = ''s2'', ms_customer_id = ''c1'', ms_date = ''2024-04-02T08:00:00.000Z'',
          ms_measurements = 1, ms_job_number = None, ms_request_date = None,
          ms_payment_status = ''Paid'', ms_order_status = ''Completed'',
          ms_completion_date = Some ''2024-04-20T09:00:00.000Z'', ms_handover_date = None\<rparr>],
      calls = []\<rparr>"

section \<open>The order and payment status of a measurement set\<close>

subsection \<open>What an update leaves in the table\<close>

lemma measurement_sets_store_write:
  "measurement_sets (snd (store_write e c f w)) =
     (if store_error e = None then measurement_sets (f (w\<lparr>calls := calls w @ [c]\<rparr>)) else measurement_sets w)"
  by (simp add: store_write_def Let_def split: option.splits)

lemma measurement_sets_update:
  "measurement_sets (snd (update_measurement_sets e u setId w)) =
     (if store_error e = None
      then map (\<lambda>r. if ms_id r = setId then apply_update u r else r) (measurement_sets w)
      else measurement_sets w)"
  by (simp add: update_measurement_sets_def measurement_sets_store_write)

lemma measurement_sets_updateOrderStatus:
  "measurement_sets (snd (updateOrderStatus e setId customerId newStatus w)) =
     (if store_error e = None
      then map (\<lambda>r. if ms_id r = setId then apply_update (order_updateData e newStatus) r else r)
             (measurement_sets w)
      else measurement_sets w)"
proof -
  have "measurement_sets (snd (updateOrderStatus e setId customerId newStatus w)) =
        measurement_sets (snd (update_measurement_sets e (order_updateData e newStatus) setId w))"
    by (simp add: updateOrderStatus_def revalidatePath_def split: prod.splits)
  then show ?thesis by (simp only: measurement_sets_update)
qed

lemma measurement_sets_updatePaymentStatus:
  "measurement_sets (snd (updatePaymentStatus e setId customerId newStatus w)) =
     (if store_error e = None
      then map (\<lambda>r. if ms_id r = setId then r\<lparr>ms_payment_status := newStatus\<rparr> else r)
             (measurement_sets w)
      else measurement_sets w)"
proof -
  have "measurement_sets (snd (updatePaymentStatus e setId customerId newStatus w)) =
        measurement_sets (snd (update_measurement_sets e
          \<lparr>set_order_status = None, set_payment_status = Some newStatus,
           set_completion_date = None, set_handover_date = None\<rparr> setId w))"
    by (simp add: updatePaymentStatus_def revalidatePath_def split: prod.splits)
  then show ?thesis by (simp add: measurement_sets_update apply_update_def)
qed

lemma apply_order_updateData:
  "apply_update (order_updateData e newStatus) r =
     r\<lparr>ms_order_status := newStatus,
       ms_completion_date := (if newStatus = ''Completed'' then Some (now e) else ms_completion_date r),
       ms_handover_date := (if newStatus = ''Handed Over'' then Some (now e) else ms_handover_date r)\<rparr>"
  by (simp add: apply_update_def order_updateData_def Let_def)

subsection \<open>Order status and its timestamps\<close>

text \<open>
  Claim C1. When the store applies the update of \<open>updateOrderStatus\<close>, every
  measurement set with the given id gets the new order status; its completion date becomes
  the current time exactly when the new status is \<open>Completed\<close>, its handover date
  becomes the current time exactly when the new status is \<open>Handed Over\<close>, and for any
  other status both dates stay as they were. Nothing else in the table changes.
\<close>

theorem updateOrderStatus_effect:
  assumes "store_error e = None"
  shows "measurement_sets (snd (updateOrderStatus e setId customerId newStatus w)) =
           map (\<lambda>r. if ms_id r = setId
                     then r\<lparr>ms_order_status := newStatus,
                            ms_completion_date :=
                              (if newStatus = ''Completed'' then Some (now e) else ms_completion_date r),
                            ms_handover_date :=
                              (if newStatus = ''Handed Over'' then Some (now e) else ms_handover_date r)\<rparr>
                     else r)
             (measurement_sets w)"
  using assms by (simp add: measurement_sets_updateOrderStatus apply_order_updateData)

theorem updateOrderStatus_effect_witness:
  "store_error example_env = None \<and>
   map (\<lambda>r. (ms_id r, ms_order_status r, ms_completion_date r, ms_handover_date r))
     (measurement_sets (snd (updateOrderStatus example_env ''s1'' ''c1'' ''Completed'' example_world))) =
   [(''s1'', ''Completed'', Some ''2024-05-01T10:00:00.000Z'', None),
    (''s2'', ''Completed'', Some ''2024-04-20T09:00:00.000Z'', None)]"
  using updateOrderStatus_effect [of example_env "''s1''" "''c1''" "''Completed''" example_world]
  by (simp add: example_env_def example_world_def)

lemma updateOrderStatus_keeps_dates:
  "list_all2 (\<lambda>r r'. ms_id r' = ms_id r \<and>
                (ms_completion_date r \<noteq> None \<longrightarrow> ms_completion_date r' \<noteq> None) \<and>
                (ms_handover_date r \<noteq> None \<longrightarrow> ms_handover_date r' \<noteq> None) \<and>
                (newStatus \<noteq> ''Completed'' \<longrightarrow> ms_completion_date r' = ms_completion_date r) \<and>
                (newStatus \<noteq> ''Handed Over'' \<longrightarrow> ms_handover_date r' = ms_handover_date r))
     (measurement_sets w)
     (measurement_sets (snd (updateOrderStatus e setId customerId newStatus w)))"
  by (simp add: measurement_sets_updateOrderStatus apply_order_updateData
      list_all2_map2 list_all2_same)

lemma updateOrderStatus_seq_never_clears:
  "list_all2 (\<lambda>r r'. ms_id r' = ms_id r \<and>
                (ms_completion_date r \<noteq> None \<longrightarrow> ms_completion_date r' \<noteq> None) \<and>
                (ms_handover_date r \<noteq> None \<longrightarrow> ms_handover_date r' \<noteq> None))
     (measurement_sets w) (measurement_sets (updateOrderStatus_seq cs w))"
proof (induction cs arbitrary: w)
  case Nil
  show ?case by (simp add: list_all2_same)
next
  case (Cons c cs)
  obtain e setId customerId newStatus where c: "c = (e, setId, customerId, newStatus)"
    by (cases c) auto
  let ?w1 = "snd (updateOrderStatus e setId customerId newStatus w)"
  let ?P = "\<lambda>r r'. ms_id r' = ms_id r \<and>
                (ms_completion_date r \<noteq> None \<longrightarrow> ms_completion_date r' \<noteq> None) \<and>
                (ms_handover_date r \<noteq> None \<longrightarrow> ms_handover_date r' \<noteq> None)"
  have step: "list_all2 ?P (measurement_sets w) (measurement_sets ?w1)"
    by (rule list_all2_mono [OF updateOrderStatus_keeps_dates]) simp
  have rest: "list_all2 ?P (measurement_sets ?w1) (measurement_sets (updateOrderStatus_seq cs ?w1))"
    by (rule Cons.IH)
  have "list_all2 ?P (measurement_sets w) (measurement_sets (updateOrderStatus_seq cs ?w1))"
    by (rule list_all2_trans [OF _ step rest]) simp
  then show ?case by (simp add: c)
qed

lemma updateOrderStatus_seq_regression:
  "list_all (\<lambda>(e, setId, customerId, newStatus). newStatus \<noteq> ''Completed'') cs \<Longrightarrow>
   map ms_completion_date (measurement_sets (updateOrderStatus_seq cs w)) =
   map ms_completion_date (measurement_sets w)"
proof (induction cs arbitrary: w)
  case Nil
  show ?case by simp
next
  case (Cons c cs)
  obtain e setId customerId newStatus where c: "c = (e, setId, customerId, newStatus)"
    by (cases c) auto
  from Cons.prems c have st: "newStatus \<noteq> ''Completed''" and tl: "list_all (\<lambda>(e, setId, customerId, newStatus). newStatus \<noteq> ''Completed'') cs"
    by simp_all
  have "map ms_completion_date (measurement_sets (snd (updateOrderStatus e setId customerId newStatus w))) =
        map ms_completion_date (measurement_sets w)"
    using st by (simp add: measurement_sets_updateOrderStatus apply_order_updateData)
  with Cons.IH [OF tl] show ?case by (simp add: c)
qed

lemma updateOrderStatus_seq_regression_handover:
  "list_all (\<lambda>(e, setId, customerId, newStatus). newStatus \<noteq> ''Handed Over'') cs \<Longrightarrow>
   map ms_handover_date (measurement_sets (updateOrderStatus_seq cs w)) =
   map ms_handover_date (measurement_sets w)"
proof (induction cs arbitrary: w)
  case Nil
  show ?case by simp
next
  case (Cons c cs)
  obtain e setId customerId newStatus where c: "c = (e, setId, customerId, newStatus)"
    by (cases c) auto
  from Cons.prems c have st: "newStatus \<noteq> ''Handed Over''" and tl: "list_all (\<lambda>(e, setId, customerId, newStatus). newStatus \<noteq> ''Handed Over'') cs"
    by simp_all
  have "map ms_handover_date (measurement_sets (snd (updateOrderStatus e setId customerId newStatus w))) =
        map ms_handover_date (measurement_sets w)"
    using st by (simp add: measurement_sets_updateOrderStatus apply_order_updateData)
  with Cons.IH [OF tl] show ?case by (simp add: c)
qed

text \<open>
  Claim C2. Over any run of \<open>updateOrderStatus\<close> calls the table keeps its rows in
  place, and a row whose completion date (handover date) was set before the run still has
  one after it. If no call of the run carries the status \<open>Completed\<close>
  (\<open>Handed Over\<close>), as in a regression to an earlier status, every completion date
  (handover date) is exactly what it was.
\<close>

theorem timestamps_never_cleared:
  "list_all2 (\<lambda>r r'. ms_id r' = ms_id r \<and>
                (ms_completion_date r \<noteq> None \<longrightarrow> ms_completion_date r' \<noteq> None) \<and>
                (ms_handover_date r \<noteq> None \<longrightarrow> ms_handover_date r' \<noteq> None))
     (measurement_sets w) (measurement_sets (updateOrderStatus_seq cs w)) \<and>
   (list_all (\<lambda>(e, setId, customerId, newStatus). newStatus \<noteq> ''Completed'') cs \<longrightarrow>
      map ms_completion_date (measurement_sets (updateOrderStatus_seq cs w)) =
      map ms_completion_date (measurement_sets w)) \<and>
   (list_all (\<lambda>(e, setId, customerId, newStatus). newStatus \<noteq> ''Handed Over'') cs \<longrightarrow>
      map ms_handover_date (measurement_sets (updateOrderStatus_seq cs w)) =
      map ms_handover_date (measurement_sets w))"
  using updateOrderStatus_seq_never_clears [of w cs]
    updateOrderStatus_seq_regression [of cs w]
    updateOrderStatus_seq_regression_handover [of cs w]
  by blast

theorem timestamps_never_cleared_witness:
  "list_all (\<lambda>(e, setId, customerId, newStatus). newStatus \<noteq> ''Completed'' \<and> newStatus \<noteq> ''Handed Over'')
     [(example_env, ''s2'', ''c1'', ''Pending''),
      (example_env\<lparr>now := ''2024-05-02T10:00:00.000Z''\<rparr>, ''s2'', ''c1'', ''In Progress'')] \<and>
   map ms_completion_date (measurement_sets example_world) = [None, Some ''2024-04-20T09:00:00.000Z''] \<and>
   map (\<lambda>r. (ms_order_status r, ms_completion_date r, ms_handover_date r))
     (measurement_sets (updateOrderStatus_seq
        [(example_env, ''s2'', ''c1'', ''Pending''),
         (example_env\<lparr>now := ''2024-05-02T10:00:00.000Z''\<rparr>, ''s2'', ''c1'', ''In Progress'')]
        example_world)) =
   [(''Pending'', None, None), (''In Progress'', Some ''2024-04-20T09:00:00.000Z'', None)]"
  using timestamps_never_cleared
    [of example_world "[(example_env, ''s2'', ''c1'', ''Pending''),
         (example_env\<lparr>now := ''2024-05-02T10:00:00.000Z''\<rparr>, ''s2'', ''c1'', ''In Progress'')]"]
  by (simp add: example_env_def example_world_def measurement_sets_updateOrderStatus
      apply_order_updateData)

subsection \<open>Repeating an update\<close>

text \<open>
  Claim C3. Let the same status update be sent twice in a row, with any clock and any store
  reply for either call. If the store applied the first one, the stored order status
  (payment status) of every row after the second call is what it was after the first,
  whether or not the store applied the second; if the store applied the second one, it is
  what that call alone would have left. In every case a completion or handover date
  that is set after the first call is still set after the second; a payment update leaves
  all dates untouched.
\<close>

theorem status_update_idempotent:
  "(store_error e1 = None \<longrightarrow>
      map ms_order_status
        (measurement_sets (snd (updateOrderStatus e2 setId customerId newStatus
           (snd (updateOrderStatus e1 setId customerId newStatus w))))) =
      map ms_order_status (measurement_sets (snd (updateOrderStatus e1 setId customerId newStatus w)))) \<and>
   (store_error e2 = None \<longrightarrow>
      map ms_order_status
        (measurement_sets (snd (updateOrderStatus e2 setId customerId newStatus
           (snd (updateOrderStatus e1 setId customerId newStatus w))))) =
      map ms_order_status (measurement_sets (snd (updateOrderStatus e2 setId customerId newStatus w)))) \<and>
   list_all2 (\<lambda>r r'. (ms_completion_date r \<noteq> None \<longrightarrow> ms_completion_date r' \<noteq> None) \<and>
                (ms_handover_date r \<noteq> None \<longrightarrow> ms_handover_date r' \<noteq> None))
     (measurement_sets (snd (updateOrderStatus e1 setId customerId newStatus w)))
     (measurement_sets (snd (updateOrderStatus e2 setId customerId newStatus
        (snd (updateOrderStatus e1 setId customerId newStatus w))))) \<and>
   (store_error e1 = None \<longrightarrow>
      map ms_payment_status
        (measurement_sets (snd (updatePaymentStatus e2 setId customerId newStatus
           (snd (updatePaymentStatus e1 setId customerId newStatus w))))) =
      map ms_payment_status (measurement_sets (snd (updatePaymentStatus e1 setId customerId newStatus w)))) \<and>
   (store_error e2 = None \<longrightarrow>
      map ms_payment_status
        (measurement_sets (snd (updatePaymentStatus e2 setId customerId newStatus
           (snd (updatePaymentStatus e1 setId customerId newStatus w))))) =
      map ms_payment_status (measurement_sets (snd (updatePaymentStatus e2 setId customerId newStatus w)))) \<and>
   map (\<lambda>r. (ms_completion_date r, ms_handover_date r))
     (measurement_sets (snd (updatePaymentStatus e2 setId customerId newStatus
        (snd (updatePaymentStatus e1 setId customerId newStatus w))))) =
   map (\<lambda>r. (ms_completion_date r, ms_handover_date r))
     (measurement_sets (snd (updatePaymentStatus e1 setId customerId newStatus w)))"
proof -
  let ?w1 = "snd (updateOrderStatus e1 setId customerId newStatus w)"
  let ?p1 = "snd (updatePaymentStatus e1 setId customerId newStatus w)"
  have order: "store_error e1 = None \<Longrightarrow>
      map ms_order_status (measurement_sets (snd (updateOrderStatus e2 setId customerId newStatus ?w1))) =
      map ms_order_status (measurement_sets ?w1)"
    by (simp add: measurement_sets_updateOrderStatus apply_order_updateData)
  have order2: "store_error e2 = None \<Longrightarrow>
      map ms_order_status (measurement_sets (snd (updateOrderStatus e2 setId customerId newStatus ?w1))) =
      map ms_order_status (measurement_sets (snd (updateOrderStatus e2 setId customerId newStatus w)))"
    by (simp add: measurement_sets_updateOrderStatus apply_order_updateData)
  have payment2: "store_error e2 = None \<Longrightarrow>
      map ms_payment_status (measurement_sets (snd (updatePaymentStatus e2 setId customerId newStatus ?p1))) =
      map ms_payment_status (measurement_sets (snd (updatePaymentStatus e2 setId customerId newStatus w)))"
    by (simp add: measurement_sets_updatePaymentStatus)
  have dates: "list_all2 (\<lambda>r r'. (ms_completion_date r \<noteq> None \<longrightarrow> ms_completion_date r' \<noteq> None) \<and>
                (ms_handover_date r \<noteq> None \<longrightarrow> ms_handover_date r' \<noteq> None))
     (measurement_sets ?w1)
     (measurement_sets (snd (updateOrderStatus e2 setId customerId newStatus ?w1)))"
    by (rule list_all2_mono [OF updateOrderStatus_keeps_dates]) simp
  have payment: "store_error e1 = None \<Longrightarrow>
      map ms_payment_status (measurement_sets (snd (updatePaymentStatus e2 setId customerId newStatus ?p1))) =
      map ms_payment_status (measurement_sets ?p1)"
    by (simp add: measurement_sets_updatePaymentStatus)
  have pdates: "map (\<lambda>r. (ms_completion_date r, ms_handover_date r))
     (measurement_sets (snd (updatePaymentStatus e2 setId customerId newStatus ?p1))) =
     map (\<lambda>r. (ms_completion_date r, ms_handover_date r)) (measurement_sets ?p1)"
    by (simp add: measurement_sets_updatePaymentStatus)
  from order order2 dates payment payment2 pdates show ?thesis by blast
qed

theorem status_update_idempotent_witness:
  "store_error example_env = None \<and>
   map (\<lambda>r. (ms_order_status r, ms_completion_date r))
     (measurement_sets (snd (updateOrderStatus example_env ''s1'' ''c1'' ''Completed'' example_world))) =
   [(''Completed'', Some ''2024-05-01T10:00:00.000Z''), (''Completed'', Some ''2024-04-20T09:00:00.000Z'')] \<and>
   map (\<lambda>r. (ms_order_status r, ms_completion_date r))
     (measurement_sets (snd (updateOrderStatus (example_env\<lparr>now := ''2024-05-02T10:00:00.000Z''\<rparr>)
        ''s1'' ''c1'' ''Completed''
        (snd (updateOrderStatus example_env ''s1'' ''c1'' ''Completed'' example_world))))) =
   [(''Completed'', Some ''2024-05-02T10:00:00.000Z''), (''Completed'', Some ''2024-04-20T09:00:00.000Z'')] \<and>
   map ms_payment_status
     (measurement_sets (snd (updatePaymentStatus (example_env\<lparr>store_error := Some ''timeout''\<rparr>)
        ''s1'' ''c1'' ''Paid''
        (snd (updatePaymentStatus example_env ''s1'' ''c1'' ''Paid'' example_world))))) =
   [''Paid'', ''Paid'']"
  using status_update_idempotent
    [of example_env "example_env\<lparr>now := ''2024-05-02T10:00:00.000Z''\<rparr>" "''s1''" "''c1''"
        "''Completed''" example_world]
  by (simp add: example_env_def example_world_def measurement_sets_updateOrderStatus
      measurement_sets_updatePaymentStatus apply_order_updateData)

subsection \<open>What each update leaves alone\<close>

lemma customers_store_write:
  "(\<And>v. customers (f v) = customers v) \<Longrightarrow> customers (snd (store_write e c f w)) = customers w"
  by (simp add: store_write_def Let_def split: option.splits)

lemma customers_update_measurement_sets:
  "customers (snd (update_measurement_sets e u setId w)) = customers w"
  by (simp add: update_measurement_sets_def customers_store_write)

lemma customers_updateOrderStatus:
  "customers (snd (updateOrderStatus e setId customerId newStatus w)) = customers w"
proof -
  have "customers (snd (updateOrderStatus e setId customerId newStatus w)) =
        customers (snd (update_measurement_sets e (order_updateData e newStatus) setId w))"
    by (simp add: updateOrderStatus_def revalidatePath_def split: prod.splits)
  then show ?thesis by (simp only: customers_update_measurement_sets)
qed

lemma customers_updatePaymentStatus:
  "customers (snd (updatePaymentStatus e setId customerId newStatus w)) = customers w"
proof -
  have "customers (snd (updatePaymentStatus e setId customerId newStatus w)) =
        customers (snd (update_measurement_sets e
          \<lparr>set_order_status = None, set_payment_status = Some newStatus,
           set_completion_date = None, set_handover_date = None\<rparr> setId w))"
    by (simp add: updatePaymentStatus_def revalidatePath_def split: prod.splits)
  then show ?thesis by (simp only: customers_update_measurement_sets)
qed

text \<open>
  Claim C4. \<open>updatePaymentStatus\<close> changes the table of measurement sets only by
  putting the new payment status into the rows with the given id, and only when the store
  applies the update; every other column of every row, the completion and handover dates
  among them, and the customers stay as they were. \<open>updateOrderStatus\<close> leaves the
  payment status of every row as it was.
\<close>

theorem payment_and_order_updates_are_separate:
  "measurement_sets (snd (updatePaymentStatus e setId customerId newStatus w)) =
     (if store_error e = None
      then map (\<lambda>r. if ms_id r = setId then r\<lparr>ms_payment_status := newStatus\<rparr> else r)
             (measurement_sets w)
      else measurement_sets w) \<and>
   map (\<lambda>r. (ms_completion_date r, ms_handover_date r))
     (measurement_sets (snd (updatePaymentStatus e setId customerId newStatus w))) =
   map (\<lambda>r. (ms_completion_date r, ms_handover_date r)) (measurement_sets w) \<and>
   customers (snd (updatePaymentStatus e setId customerId newStatus w)) = customers w \<and>
   map ms_payment_status (measurement_sets (snd (updateOrderStatus e setId customerId newStatus w))) =
   map ms_payment_status (measurement_sets w)"
  by (simp add: measurement_sets_updatePaymentStatus measurement_sets_updateOrderStatus
      apply_order_updateData customers_updatePaymentStatus)

theorem payment_and_order_updates_are_separate_witness:
  "map (\<lambda>r. (ms_payment_status r, ms_order_status r, ms_completion_date r, ms_handover_date r))
     (measurement_sets (snd (updatePaymentStatus example_env ''s1'' ''c1'' ''Paid'' example_world))) =
   [(''Paid'', ''Pending'', None, None),
    (''Paid'', ''Completed'', Some ''2024-04-20T09:00:00.000Z'', None)] \<and>
   map ms_payment_status
     (measurement_sets (snd (updateOrderStatus example_env ''s1'' ''c1'' ''Completed'' example_world))) =
   [''Unpaid'', ''Paid'']"
  using payment_and_order_updates_are_separate
    [of example_env "''s1''" "''c1''" "''Paid''" example_world]
    payment_and_order_updates_are_separate
    [of example_env "''s1''" "''c1''" "''Completed''" example_world]
  by (simp add: example_env_def example_world_def)

subsection \<open>The customer id of a status update\<close>

lemma calls_update_measurement_sets:
  "calls (snd (update_measurement_sets e u setId w)) = calls w @ [Update_measurement_sets u setId]"
  by (simp add: update_measurement_sets_def store_write_def Let_def split: option.splits)

lemma fst_update_measurement_sets:
  "fst (update_measurement_sets e u setId w) = store_error e"
  by (simp add: update_measurement_sets_def store_write_def Let_def split: option.splits)

lemma calls_updateOrderStatus:
  "calls (snd (updateOrderStatus e setId customerId newStatus w)) =
     calls w @ Update_measurement_sets (order_updateData e newStatus) setId #
       (if store_error e = None then [RevalidatePath (''/dashboard/customer/'' @ customerId)] else [])"
  using calls_update_measurement_sets [of e "order_updateData e newStatus" setId w]
    fst_update_measurement_sets [of e "order_updateData e newStatus" setId w]
  by (auto simp: updateOrderStatus_def revalidatePath_def split: prod.splits)

lemma calls_updatePaymentStatus:
  "calls (snd (updatePaymentStatus e setId customerId newStatus w)) =
     calls w @ Update_measurement_sets
                \<lparr>set_order_status = None, set_payment_status = Some newStatus,
                 set_completion_date = None, set_handover_date = None\<rparr> setId #
       (if store_error e = None then [RevalidatePath (''/dashboard/customer/'' @ customerId)] else [])"
  using calls_update_measurement_sets [of e "\<lparr>set_order_status = None, set_payment_status = Some newStatus,
                 set_completion_date = None, set_handover_date = None\<rparr>" setId w]
    fst_update_measurement_sets [of e "\<lparr>set_order_status = None, set_payment_status = Some newStatus,
                 set_completion_date = None, set_handover_date = None\<rparr>" setId w]
  by (auto simp: updatePaymentStatus_def revalidatePath_def split: prod.splits)

lemma fst_updateOrderStatus:
  "fst (updateOrderStatus e setId customerId newStatus w) =
     (if store_error e = None then Success else Failure ''Failed to update order status.'' None)"
  using fst_update_measurement_sets [of e "order_updateData e newStatus" setId w]
  by (cases "store_error e") (auto simp: updateOrderStatus_def split: prod.splits)

lemma fst_updatePaymentStatus:
  "fst (updatePaymentStatus e setId customerId newStatus w) =
     (if store_error e = None then Success else Failure ''Failed to update payment status.'' None)"
  using fst_update_measurement_sets [of e "\<lparr>set_order_status = None, set_payment_status = Some newStatus,
                 set_completion_date = None, set_handover_date = None\<rparr>" setId w]
  by (cases "store_error e") (auto simp: updatePaymentStatus_def split: prod.splits)

text \<open>
  Claim C9. In \<open>updateOrderStatus\<close> and in \<open>updatePaymentStatus\<close> the customer id
  takes no part in the update: two calls that differ only in it give the same result and
  leave the same tables. The requests they send are the same update, filtered by the set
  id alone, followed after a success by the invalidation of the page of the customer id
  given, which is the only place where that id appears.
\<close>

theorem customerId_only_selects_revalidated_path:
  "measurement_sets (snd (updateOrderStatus e setId customerId1 newStatus w)) =
   measurement_sets (snd (updateOrderStatus e setId customerId2 newStatus w)) \<and>
   customers (snd (updateOrderStatus e setId customerId1 newStatus w)) =
   customers (snd (updateOrderStatus e setId customerId2 newStatus w)) \<and>
   fst (updateOrderStatus e setId customerId1 newStatus w) =
   fst (updateOrderStatus e setId customerId2 newStatus w) \<and>
   calls (snd (updateOrderStatus e setId customerId1 newStatus w)) =
     calls w @ Update_measurement_sets (order_updateData e newStatus) setId #
       (if store_error e = None then [RevalidatePath (''/dashboard/customer/'' @ customerId1)] else []) \<and>
   measurement_sets (snd (updatePaymentStatus e setId customerId1 newStatus w)) =
   measurement_sets (snd (updatePaymentStatus e setId customerId2 newStatus w)) \<and>
   customers (snd (updatePaymentStatus e setId customerId1 newStatus w)) =
   customers (snd (updatePaymentStatus e setId customerId2 newStatus w)) \<and>
   fst (updatePaymentStatus e setId customerId1 newStatus w) =
   fst (updatePaymentStatus e setId customerId2 newStatus w) \<and>
   calls (snd (updatePaymentStatus e setId customerId1 newStatus w)) =
     calls w @ Update_measurement_sets
                \<lparr>set_order_status = None, set_payment_status = Some newStatus,
                 set_completion_date = None, set_handover_date = None\<rparr> setId #
       (if store_error e = None then [RevalidatePath (''/dashboard/customer/'' @ customerId1)] else [])"
  by (simp add: measurement_sets_updateOrderStatus measurement_sets_updatePaymentStatus
      customers_updateOrderStatus customers_updatePaymentStatus fst_updateOrderStatus
      fst_updatePaymentStatus calls_updateOrderStatus calls_updatePaymentStatus)

theorem customerId_only_selects_revalidated_path_witness:
  "map ms_customer_id (measurement_sets example_world) = [''c1'', ''c1''] \<and>
   map ms_order_status
     (measurement_sets (snd (updateOrderStatus example_env ''s1'' ''c9'' ''Cutting'' example_world))) =
   [''Cutting'', ''Completed''] \<and>
   measurement_sets (snd (updateOrderStatus example_env ''s1'' ''c9'' ''Cutting'' example_world)) =
   measurement_sets (snd (updateOrderStatus example_env ''s1'' ''c1'' ''Cutting'' example_world)) \<and>
   calls (snd (updateOrderStatus example_env ''s1'' ''c9'' ''Cutting'' example_world)) =
   [Update_measurement_sets
      \<lparr>set_order_status = Some ''Cutting'', set_payment_status = None,
       set_completion_date = None, set_handover_date = None\<rparr> ''s1'',
    RevalidatePath ''/dashboard/customer/c9'']"
  using customerId_only_selects_revalidated_path
    [of example_env "''s1''" "''c9''" "''Cutting''" example_world "''c1''"]
  by (simp add: example_env_def example_world_def order_updateData_def
      measurement_sets_updateOrderStatus apply_update_def)

section \<open>Adding a measurement set\<close>

lemma calls_insert_measurement_set:
  "calls (snd (insert_measurement_set e p w)) = calls w @ [Insert_measurement_set p]"
  by (simp add: insert_measurement_set_def store_write_def Let_def split: option.splits)

lemma fst_insert_measurement_set:
  "fst (insert_measurement_set e p w) = store_error e"
  by (simp add: insert_measurement_set_def store_write_def Let_def split: option.splits)

lemma measurement_sets_insert:
  "measurement_sets (snd (insert_measurement_set e p w)) =
     (if store_error e = None then measurement_sets w @ [inserted_row (new_id e) p]
      else measurement_sets w)"
  by (simp add: insert_measurement_set_def measurement_sets_store_write)

text \<open>
  Claim C8. \<open>addMeasurementSet\<close> sends the store one insert whose creation date is the
  current time and whose job number, request date, payment status and order status are the
  caller's values as given, an absent one staying absent. When the store accepts it, the
  table gains one row with exactly these values.
\<close>

theorem addMeasurementSet_copies_fields:
  "calls (snd (addMeasurementSet e customerId m w)) =
     calls w @ Insert_measurement_set
                \<lparr>customer_id = customerId, date = now e, measurements_col = measurements m,
                 job_number = jobNumber m, request_date = requestDate m,
                 payment_status = paymentStatus m, order_status = orderStatus m\<rparr> #
       (if store_error e = None then [RevalidatePath (''/dashboard/customer/'' @ customerId)] else []) \<and>
   measurement_sets (snd (addMeasurementSet e customerId m w)) =
     (if store_error e = None
      then measurement_sets w @
             [\<lparr>ms_id = new_id e, ms_customer_id = customerId, ms_date = now e,
               ms_measurements = measurements m, ms_job_number = jobNumber m,
               ms_request_date = requestDate m, ms_payment_status = paymentStatus m,
               ms_order_status = orderStatus m, ms_completion_date = None,
               ms_handover_date = None\<rparr>]
      else measurement_sets w)"
proof -
  let ?p = "\<lparr>customer_id = customerId, date = now e, measurements_col = measurements m,
             job_number = jobNumber m, request_date = requestDate m,
             payment_status = paymentStatus m, order_status = orderStatus m\<rparr>"
  have c: "calls (snd (addMeasurementSet e customerId m w)) =
     calls w @ Insert_measurement_set ?p #
       (if store_error e = None then [RevalidatePath (''/dashboard/customer/'' @ customerId)] else [])"
    using calls_insert_measurement_set [of e ?p w] fst_insert_measurement_set [of e ?p w]
    by (auto simp: addMeasurementSet_def revalidatePath_def split: prod.splits)
  have "measurement_sets (snd (addMeasurementSet e customerId m w)) =
        measurement_sets (snd (insert_measurement_set e ?p w))"
    by (simp add: addMeasurementSet_def revalidatePath_def split: prod.splits)
  then have t: "measurement_sets (snd (addMeasurementSet e customerId m w)) =
     (if store_error e = None then measurement_sets w @ [inserted_row (new_id e) ?p]
      else measurement_sets w)"
    by (simp only: measurement_sets_insert)
  from c t show ?thesis by (simp add: inserted_row_def)
qed

theorem addMeasurementSet_copies_fields_witness:
  "measurement_sets
     (snd (addMeasurementSet example_env ''c1''
        \<lparr>measurements = 7, jobNumber = None, requestDate = Some ''2024-06-01'',
         paymentStatus = ''Partial'', orderStatus = ''Completed'',
         completionDate = Some ''2024-01-01'', handoverDate = None\<rparr> example_world)) =
   measurement_sets example_world @
     [\<lparr>ms_id = ''s3'', ms_customer_id = ''c1'', ms_date = ''2024-05-01T10:00:00.000Z'',
       ms_measurements = 7, ms_job_number = None, ms_request_date = Some ''2024-06-01'',
       ms_payment_status = ''Partial'', ms_order_status = ''Completed'',
       ms_completion_date = None, ms_handover_date = None\<rparr>]"
  using addMeasurementSet_copies_fields
    [of example_env "''c1''" "\<lparr>measurements = 7, jobNumber = None, requestDate = Some ''2024-06-01'',
         paymentStatus = ''Partial'', orderStatus = ''Completed'',
         completionDate = Some ''2024-01-01'', handoverDate = None\<rparr>" example_world]
  by (simp add: example_env_def)

section \<open>Listing the customers\<close>

text \<open>
  Claim C10. When the store's select fails, \<open>getCustomers\<close> returns the empty list,
  whatever the error; this is also what it returns when the select succeeds with no rows,
  so the two cannot be told apart from the result.
\<close>

theorem getCustomers_hides_store_failure:
  assumes "store_error e \<noteq> None"
  shows "fst (getCustomers e rows w) = Inr [] \<and>
         (store_error e' = None \<longrightarrow> fst (getCustomers e' [] w) = fst (getCustomers e rows w))"
  using assms by (auto simp: getCustomers_def select_customers_def split: option.splits)

theorem getCustomers_hides_store_failure_witness:
  "store_error (example_env\<lparr>store_error := Some ''connection refused''\<rparr>) \<noteq> None \<and>
   store_error example_env = None \<and>
   fst (getCustomers (example_env\<lparr>store_error := Some ''connection refused''\<rparr>)
          [\<lparr>sel_columns = ''A B'', sel_measurement_sets = [(''J-1'', ''Pending'')]\<rparr>] example_world) = Inr [] \<and>
   fst (getCustomers example_env ([] :: (string, string \<times> string) customer_select list) example_world) = Inr [] \<and>
   fst (getCustomers example_env
          [\<lparr>sel_columns = ''A B'', sel_measurement_sets = [(''J-1'', ''Pending'')]\<rparr>] example_world) =
   Inr [\<lparr>lst_columns = ''A B'', lst_measurement_sets = [(''J-1'', ''Pending'')],
         measurementSets = [(''J-1'', ''Pending'')]\<rparr>]"
  using getCustomers_hides_store_failure
    [of "example_env\<lparr>store_error := Some ''connection refused''\<rparr>"
        "[\<lparr>sel_columns = ''A B'', sel_measurement_sets = [(''J-1'', ''Pending'')]\<rparr>]"
        example_world example_env]
  by (simp add: example_env_def getCustomers_def select_customers_def)

section \<open>Validation of the forms\<close>

lemma z_string_min:
  "z_string [z_min n msg] (Some (Text s)) = (if length s < n then Inl [msg] else Inr s)"
  by (simp add: z_string_def z_min_def)

lemma z_string_email:
  "z_string [z_email] (Some (Text s)) = (if is_email s then Inr s else Inl [''Invalid email''])"
  by (simp add: z_string_def z_email_def)

lemma z_string_issues_nonempty: "z_string checks v = Inl issues \<Longrightarrow> issues \<noteq> []"
  by (auto simp: z_string_def Let_def split: option.splits form_value.splits if_splits)

lemma z_string_optional_issues_nonempty: "z_string_optional v = Inl issues \<Longrightarrow> issues \<noteq> []"
  by (auto simp: z_string_optional_def split: option.splits form_value.splits)

lemma split_on_absent: "c \<notin> set s \<Longrightarrow> split_on c s = [s]"
  by (induction s) auto

lemma is_email_needs_at: "CHR ''@'' \<notin> set s \<Longrightarrow> \<not> is_email s"
  by (simp add: is_email_def split_on_absent)

lemma is_email_example: "is_email ''tailor@shop.lk''"
  by code_simp

lemma not_is_email_example: "\<not> is_email ''tailor.shop.lk''"
  by code_simp

lemma signupSchema_loginSchema: "signupSchema obj = loginSchema obj"
  by (simp add: signupSchema_def loginSchema_def)

subsection \<open>The customer form\<close>

text \<open>
  Claim C5 says that every non-empty contact passes the customer form. The schema asks for
  at least five characters, under the message "Contact information is required.": the
  contact \<open>0771\<close>, with a valid name and NIC, is turned down with that message, and
  \<open>createCustomer\<close> returns the failure without touching the store.
\<close>

theorem contact_of_four_characters_rejected:
  "customerFormSchema
     (fromEntries [(''name'', Text ''A B''), (''nic'', Text ''12345''), (''contact'', Text ''0771'')]) =
   Inl [(''contact'', [''Contact information is required.''])] \<and>
   createCustomer example_env
     [(''name'', Text ''A B''), (''nic'', Text ''12345''), (''contact'', Text ''0771'')] example_world =
   (Failure ''Invalid fields'' (Some [(''contact'', [''Contact information is required.''])]),
    example_world)"
  by (simp add: createCustomer_def customerFormSchema_def fromEntries_def z_string_min
      z_string_optional_def field_errors_def)

subsection \<open>The login and signup forms\<close>

text \<open>
  Claim C6. The signup schema is the login schema. A password of length 5 makes validation
  fail with a message for the password field. A password of length 6 never draws a message
  for the password field, and together with a well-formed email the form is accepted with
  both values as typed. An email without "@" makes validation fail with a message for the
  email field.
\<close>

theorem login_validation_bounds:
  "signupSchema obj = loginSchema obj \<and>
   (obj ''password'' = Some (Text p) \<and> length p = 5 \<longrightarrow>
      (\<exists>errs. loginSchema obj = Inl errs \<and>
              (''password'', [''String must contain at least 6 character(s)'']) \<in> set errs)) \<and>
   (obj ''password'' = Some (Text p) \<and> length p = 6 \<longrightarrow>
      (\<forall>errs. loginSchema obj = Inl errs \<longrightarrow> ''password'' \<notin> fst ` set errs) \<and>
      (obj ''email'' = Some (Text m) \<and> is_email m \<longrightarrow> loginSchema obj = Inr (m, p))) \<and>
   (obj ''email'' = Some (Text m) \<and> CHR ''@'' \<notin> set m \<longrightarrow>
      (\<exists>errs. loginSchema obj = Inl errs \<and> (''email'', [''Invalid email'']) \<in> set errs))"
proof -
  have short: "obj ''password'' = Some (Text p) \<Longrightarrow> length p = 5 \<Longrightarrow>
      \<exists>errs. loginSchema obj = Inl errs \<and>
              (''password'', [''String must contain at least 6 character(s)'']) \<in> set errs"
    by (auto simp: loginSchema_def z_string_min field_errors_def Let_def split: sum.splits)
  have six: "obj ''password'' = Some (Text p) \<Longrightarrow> length p = 6 \<Longrightarrow>
      (\<forall>errs. loginSchema obj = Inl errs \<longrightarrow> ''password'' \<notin> fst ` set errs) \<and>
      (obj ''email'' = Some (Text m) \<and> is_email m \<longrightarrow> loginSchema obj = Inr (m, p))"
    by (auto simp: loginSchema_def z_string_min z_string_email field_errors_def Let_def
        split: sum.splits)
  have at: "obj ''email'' = Some (Text m) \<Longrightarrow> CHR ''@'' \<notin> set m \<Longrightarrow>
      \<exists>errs. loginSchema obj = Inl errs \<and> (''email'', [''Invalid email'']) \<in> set errs"
    using is_email_needs_at [of m]
    by (auto simp: loginSchema_def z_string_email field_errors_def Let_def
        split: sum.splits)
  from short six at show ?thesis by (simp add: signupSchema_loginSchema)
qed

theorem login_validation_bounds_witness:
  "loginSchema (fromEntries [(''email'', Text ''tailor@shop.lk''), (''password'', Text ''abc123'')]) =
     Inr (''tailor@shop.lk'', ''abc123'') \<and>
   (\<exists>errs. loginSchema (fromEntries [(''email'', Text ''tailor@shop.lk''), (''password'', Text ''abc12'')]) =
             Inl errs) \<and>
   (\<exists>errs. signupSchema (fromEntries [(''email'', Text ''tailor.shop.lk''), (''password'', Text ''abc123'')]) =
             Inl errs)"
  using login_validation_bounds
    [of "fromEntries [(''email'', Text ''tailor@shop.lk''), (''password'', Text ''abc123'')]"
        "''abc123''" "''tailor@shop.lk''"]
    login_validation_bounds
    [of "fromEntries [(''email'', Text ''tailor@shop.lk''), (''password'', Text ''abc12'')]"
        "''abc12''" "''tailor@shop.lk''"]
    login_validation_bounds
    [of "fromEntries [(''email'', Text ''tailor.shop.lk''), (''password'', Text ''abc123'')]"
        "''abc123''" "''tailor.shop.lk''"]
    is_email_example
  by (simp add: fromEntries_def) blast

subsection \<open>A form that fails validation\<close>

lemma customerFormSchema_errors:
  assumes "customerFormSchema obj = Inl errs"
  shows "errs \<noteq> [] \<and> list_all (\<lambda>(key, messages). messages \<noteq> []) errs"
proof -
  let ?n = "z_string [z_min 2 ''Name must be at least 2 characters.''] (obj ''name'')"
  let ?i = "z_string [z_min 5 ''NIC must be at least 5 characters.''] (obj ''nic'')"
  let ?c = "z_string [z_min 5 ''Contact information is required.''] (obj ''contact'')"
  let ?h = "z_string_optional (obj ''orderHistory'')"
  let ?p = "z_string_optional (obj ''preferences'')"
  have errs: "errs = field_errors ''name'' ?n @ field_errors ''nic'' ?i @ field_errors ''contact'' ?c
                @ field_errors ''orderHistory'' ?h @ field_errors ''preferences'' ?p"
    using assms by (auto simp: customerFormSchema_def Let_def split: sum.splits)
  have ne: "errs \<noteq> []"
    using assms unfolding errs
    by (cases ?n; cases ?i; cases ?c; cases ?h; cases ?p)
       (simp_all add: customerFormSchema_def Let_def field_errors_def)
  have n: "list_all (\<lambda>(key, messages). messages \<noteq> []) (field_errors ''name'' ?n)"
    using z_string_issues_nonempty by (auto simp: field_errors_def split: sum.splits)
  have i: "list_all (\<lambda>(key, messages). messages \<noteq> []) (field_errors ''nic'' ?i)"
    using z_string_issues_nonempty by (auto simp: field_errors_def split: sum.splits)
  have c: "list_all (\<lambda>(key, messages). messages \<noteq> []) (field_errors ''contact'' ?c)"
    using z_string_issues_nonempty by (auto simp: field_errors_def split: sum.splits)
  have h: "list_all (\<lambda>(key, messages). messages \<noteq> []) (field_errors ''orderHistory'' ?h)"
    using z_string_optional_issues_nonempty by (auto simp: field_errors_def split: sum.splits)
  have p: "list_all (\<lambda>(key, messages). messages \<noteq> []) (field_errors ''preferences'' ?p)"
    using z_string_optional_issues_nonempty by (auto simp: field_errors_def split: sum.splits)
  from ne n i c h p show ?thesis unfolding errs by simp
qed

text \<open>
  A login form with a malformed email and a short password fails on both fields, and
  \<open>login\<close> hands back the general message alone, with no \<open>fields\<close> entry.
\<close>

theorem login_failure_carries_no_field_messages:
  "loginSchema (fromEntries [(''email'', Text ''tailor.shop.lk''), (''password'', Text ''abc12'')]) =
     Inl [(''email'', [''Invalid email'']),
          (''password'', [''String must contain at least 6 character(s)''])] \<and>
   fst (login example_env [(''email'', Text ''tailor.shop.lk''), (''password'', Text ''abc12'')]
          example_world) = Failure ''Invalid fields'' None"
  using not_is_email_example
  by (simp add: login_def loginSchema_def fromEntries_def z_string_def z_min_def z_email_def
      field_errors_def)

text \<open>
  Claim C7, amended. When the form fails its schema, the action returns at once with the
  error "Invalid fields" and leaves the tables and the log of requests as they were: no
  request reaches the store or the identity provider. \<open>createCustomer\<close> and
  \<open>updateCustomer\<close> add the messages per field, at least one field and at least one
  message for each field listed; \<open>login\<close> and \<open>signup\<close> return the general
  message only.
\<close>

theorem validation_failure_changes_nothing:
  "(loginSchema (fromEntries formData) = Inl errs \<longrightarrow>
      login e formData w = (Failure ''Invalid fields'' None, w)) \<and>
   (signupSchema (fromEntries formData) = Inl errs \<longrightarrow>
      signup e formData w = (Failure ''Invalid fields'' None, w)) \<and>
   (customerFormSchema (fromEntries formData) = Inl errs \<longrightarrow>
      errs \<noteq> [] \<and> list_all (\<lambda>(key, messages). messages \<noteq> []) errs \<and>
      createCustomer e formData w = (Failure ''Invalid fields'' (Some errs), w) \<and>
      updateCustomer e customerId formData w = (Failure ''Invalid fields'' (Some errs), w))"
  using customerFormSchema_errors [of "fromEntries formData" errs]
  by (simp add: login_def signup_def createCustomer_def updateCustomer_def)

theorem validation_failure_changes_nothing_witness:
  "customerFormSchema (fromEntries [(''name'', Text ''A''), (''nic'', File), (''contact'', Text ''0771234567'')]) =
     Inl [(''name'', [''Name must be at least 2 characters.'']),
          (''nic'', [''Expected string, received object''])] \<and>
   updateCustomer example_env ''c1''
     [(''name'', Text ''A''), (''nic'', File), (''contact'', Text ''0771234567'')] example_world =
   (Failure ''Invalid fields''
      (Some [(''name'', [''Name must be at least 2 characters.'']),
             (''nic'', [''Expected string, received object''])]), example_world) \<and>
   loginSchema (fromEntries [(''email'', Text ''tailor@shop.lk'')]) = Inl [(''password'', [''Required''])] \<and>
   login example_env [(''email'', Text ''tailor@shop.lk'')] example_world =
   (Failure ''Invalid fields'' None, example_world)"
proof -
  have c: "customerFormSchema (fromEntries [(''name'', Text ''A''), (''nic'', File), (''contact'', Text ''0771234567'')]) =
     Inl [(''name'', [''Name must be at least 2 characters.'']),
          (''nic'', [''Expected string, received object''])]"
    by (simp add: customerFormSchema_def fromEntries_def z_string_def z_min_def
        z_string_optional_def field_errors_def)
  have l: "loginSchema (fromEntries [(''email'', Text ''tailor@shop.lk'')]) = Inl [(''password'', [''Required''])]"
    using is_email_example
    by (simp add: loginSchema_def fromEntries_def z_string_def z_email_def field_errors_def)
  from c l
    validation_failure_changes_nothing
      [of "[(''name'', Text ''A''), (''nic'', File), (''contact'', Text ''0771234567'')]"
          "[(''name'', [''Name must be at least 2 characters.'']),
            (''nic'', [''Expected string, received object''])]"
          example_env example_world "''c1''"]
    validation_failure_changes_nothing
      [of "[(''email'', Text ''tailor@shop.lk'')]" "[(''password'', [''Required''])]"
          example_env example_world "''c1''"]
  show ?thesis by simp
qed

end
